theory Spec2Isabelle
  imports Main "HOL-Library.Char_ord" "HOL-Library.List_Lexorder" "HOL-Library.Multiset"
begin

section \<open>Strings and paths\<close>

text \<open>
  Python strings are modelled as \<^typ>\<open>string\<close>. Characters are the 8-bit characters of
  HOL, ordered by their code (\<open>Char_ord\<close>), and strings are ordered lexicographically
  (\<open>List_Lexorder\<close>), which is Python's \<open>str\<close> comparison on code points below 256.
  \<open>str.lower()\<close> is modelled on the ASCII letters; characters outside ASCII are left as
  they are.
\<close>

definition lower_char :: "char \<Rightarrow> char" where
  "lower_char c =
     (case map_of (zip ''ABCDEFGHIJKLMNOPQRSTUVWXYZ'' ''abcdefghijklmnopqrstuvwxyz'') c of
        None \<Rightarrow> c
      | Some d \<Rightarrow> d)"

definition lower :: "string \<Rightarrow> string" where
  "lower s = map lower_char s"

text \<open>\<open>s.replace(c, '')\<close> for a one-character \<open>c\<close>.\<close>

definition remove_char :: "char \<Rightarrow> string \<Rightarrow> string" where
  "remove_char c s = filter (\<lambda>x. x \<noteq> c) s"

text \<open>\<open>s.replace(a, b)\<close> for one-character \<open>a\<close> and \<open>b\<close>.\<close>

definition replace_char :: "char \<Rightarrow> char \<Rightarrow> string \<Rightarrow> string" where
  "replace_char a b s = map (\<lambda>x. if x = a then b else x) s"

fun startswith :: "string \<Rightarrow> string \<Rightarrow> bool" where
  "startswith s [] = True"
| "startswith [] (p # ps) = False"
| "startswith (c # cs) (p # ps) = (c = p \<and> startswith cs ps)"

text \<open>\<open>sub in s\<close>: \<open>sub\<close> occurs in \<open>s\<close> as a contiguous substring.\<close>

fun str_in :: "string \<Rightarrow> string \<Rightarrow> bool" where
  "str_in sub [] = (sub = [])"
| "str_in sub (c # cs) = (startswith (c # cs) sub \<or> str_in sub cs)"

definition endswith :: "string \<Rightarrow> string \<Rightarrow> bool" where
  "endswith s suf = (length suf \<le> length s \<and> drop (length s - length suf) s = suf)"

text \<open>\<open>any(t in s for t in terms)\<close>.\<close>

definition any_in :: "string list \<Rightarrow> string \<Rightarrow> bool" where
  "any_in terms s = list_ex (\<lambda>t. str_in t s) terms"

text \<open>\<open>s.count(c)\<close> for a one-character \<open>c\<close>.\<close>

definition count_char :: "char \<Rightarrow> string \<Rightarrow> nat" where
  "count_char c s = length (filter (\<lambda>x. x = c) s)"

text \<open>
  The program runs on Windows only (it exits at import time elsewhere), so \<open>os.sep\<close> is
  the backslash and \<open>os.path\<close> is \<open>ntpath\<close>. Drive letters are modelled (\<open>X:\<close>); UNC
  shares are not.
\<close>

definition sep :: char where
  "sep = CHR 0x5C"

definition altsep :: char where
  "altsep = CHR ''/''"

definition is_sep :: "char \<Rightarrow> bool" where
  "is_sep c = (c = sep \<or> c = altsep)"

text \<open>The part of a path after its drive letter, as \<open>ntpath.splitroot\<close> leaves it.\<close>

definition drive_tail :: "string \<Rightarrow> string" where
  "drive_tail p = (if 2 \<le> length p \<and> p ! 1 = CHR '':'' then drop 2 p else p)"

text \<open>\<open>os.path.basename(p)\<close>: what follows the last separator.\<close>

definition basename :: "string \<Rightarrow> string" where
  "basename p = rev (takeWhile (\<lambda>c. \<not> is_sep c) (rev (drive_tail p)))"

text \<open>
  \<open>os.path.join(p, n)\<close> for a plain entry name \<open>n\<close> (one that a directory listing
  returns: no separator, no drive): a backslash is put between them unless the path part
  of \<open>p\<close> is empty or already ends with a separator.
\<close>

definition join :: "string \<Rightarrow> string \<Rightarrow> string" where
  "join p n =
     (let t = drive_tail p
      in if t \<noteq> [] \<and> \<not> is_sep (last t) then p @ [sep] @ n else p @ n)"

text \<open>
  \<open>os.path.splitext(p)[0]\<close>: the name up to its last dot, when that dot comes after the
  last separator and is not one of the name's leading dots.
\<close>

fun rfind :: "(char \<Rightarrow> bool) \<Rightarrow> string \<Rightarrow> int" where
  "rfind P s =
     (case dropWhile (\<lambda>c. \<not> P c) (rev s) of
        [] \<Rightarrow> - 1
      | _ # r \<Rightarrow> int (length r))"

definition splitext_root :: "string \<Rightarrow> string" where
  "splitext_root p =
     (let sepIndex = rfind is_sep p;
          dotIndex = rfind (\<lambda>c. c = CHR ''.'') p
      in if dotIndex > sepIndex \<and>
            list_ex (\<lambda>c. c \<noteq> CHR ''.'')
              (take (nat (dotIndex - (sepIndex + 1))) (drop (nat (sepIndex + 1)) p))
         then take (nat dotIndex) p
         else p)"

section \<open>Classifier\<close>

text \<open>The normalisation \<open>.lower().replace(' ', '').replace('-', '').replace('_', '')\<close>.\<close>

definition clean :: "string \<Rightarrow> string" where
  "clean s = remove_char CHR ''_'' (remove_char CHR ''-'' (remove_char CHR '' '' (lower s)))"

definition blacklist :: "string list" where
  "blacklist =
     [''uninstall'', ''install'', ''setup'', ''config'', ''update'', ''patch'', ''launcher_'',
      ''bootstrap'', ''updater'', ''patcher'', ''installer'', ''unins000'', ''repair'',
      ''redist'', ''vcredist'', ''directx'', ''dotnet'', ''runtime'', ''framework'', ''debug'',
      ''test'', ''system32'', ''msi'', ''dll'', ''editor'', ''tool'', ''utility'', ''crash'']"

definition popular_games :: "string list" where
  "popular_games =
     [''fortnite'', ''apex'', ''valorant'', ''csgo'', ''dota'', ''minecraft'', ''skyrim'',
      ''witcher'', ''gtav'', ''rdr2'', ''forza'', ''fifa'', ''nba2k'', ''doom'', ''halo'',
      ''metro'', ''bioshock'', ''portal'', ''halflife'', ''amongus'', ''hades'',
      ''stardewvalley'', ''eldenring'', ''cyberpunk'']"

definition platform_paths :: "string list" where
  "platform_paths =
     [''steamapps/common'', ''epic games'', ''origin games'', ''ubisoft'', ''riot games'',
      ''battle.net'', ''gog games'', ''xbox games'', ''rockstar games'']"

definition custom_paths :: "string list" where
  "custom_paths = [''downloads'' @ [sep] @ ''games'', ''d:'' @ [sep] @ ''games'',
                   ''c:'' @ [sep] @ ''games'']"

definition is_likely_game :: "string \<Rightarrow> string \<Rightarrow> bool" where
  "is_likely_game filename path =
     (let filename_clean = clean filename;
          path_clean = clean path
      in if any_in blacklist filename_clean then False
         else if any_in popular_games filename_clean \<or> any_in popular_games path_clean
           then True
         else if any_in (map (replace_char altsep sep) platform_paths) path_clean \<and>
                 \<not> any_in [''setup'', ''launcher'', ''updater'', ''uninstall''] filename_clean
           then True
         else if any_in custom_paths path_clean \<and>
                 \<not> any_in [''setup'', ''installer'', ''config''] filename_clean \<and>
                 (let parent_dir = lower (basename path)
                  in length parent_dir > 2 \<and> parent_dir \<notin> set [''bin'', ''game'', ''common''])
           then True
         else False)"

definition skip_words :: "string list" where
  "skip_words =
     [''system'', ''windows'', ''program'', ''files'', ''data'', ''temp'', ''cache'', ''log'',
      ''config'', ''backup'', ''bin'', ''lib'', ''common'', ''shared'', ''runtime'',
      ''framework'', ''microsoft'', ''adobe'', ''google'', ''mozilla'', ''chrome'', ''nodejs'',
      ''python'', ''git'', ''docker'', ''office'', ''visual'', ''studio'', ''code'', ''notepad'',
      ''calculator'', ''paint'', ''vlc'', ''skype'', ''discord'', ''obs'', ''zoom'']"

definition is_likely_game_directory :: "string \<Rightarrow> bool" where
  "is_likely_game_directory dirname = (\<not> any_in skip_words (clean dirname))"

section \<open>Name resolution\<close>

definition strip_suffix :: "string \<Rightarrow> string \<Rightarrow> string" where
  "strip_suffix name suffix =
     (if endswith name suffix then take (length name - length suffix) name else name)"

definition get_game_name_from_path :: "string \<Rightarrow> string \<Rightarrow> string" where
  "get_game_name_from_path directory filename =
     (let name = foldl strip_suffix (basename directory)
                   ['' - Copy'', '' (1)'', '' (2)'', '' (3)'', '' - Shortcut'']
      in if lower name \<in> set [''bin'', ''game'', ''common'', ''games'', ''steamapps'']
         then splitext_root filename
         else name)"

section \<open>Game entries and the filesystem\<close>

record game =
  name :: string
  path :: string

text \<open>
  What a path names on disk: a regular file, a directory with its listing in the order the
  operating system returns it, or a directory whose listing raises \<open>PermissionError\<close> or
  another \<open>OSError\<close>. A filesystem maps the path strings the program asks for to what is
  found there; \<open>None\<close> means \<open>os.path.exists\<close> is false.
\<close>

datatype fsnode = File | Dir "(string \<times> fsnode) list" | Denied

type_synonym filesystem = "string \<Rightarrow> fsnode option"

fun isdir :: "fsnode \<Rightarrow> bool" where
  "isdir File = False"
| "isdir (Dir entries) = True"
| "isdir Denied = True"

definition files_of :: "(string \<times> fsnode) list \<Rightarrow> string list" where
  "files_of entries = map fst (filter (\<lambda>e. \<not> isdir (snd e)) entries)"

definition is_exe :: "string \<Rightarrow> bool" where
  "is_exe file = endswith (lower file) ''.exe''"

section \<open>Traversal\<close>

text \<open>The loop \<open>for file in files\<close> of \<open>scan_directory_deep\<close>.\<close>

fun deep_files :: "string \<Rightarrow> string list \<Rightarrow> game list \<Rightarrow> game list" where
  "deep_files root [] games = games"
| "deep_files root (file # files) games =
     deep_files root files
       (if is_exe file \<and> is_likely_game file root
        then games @ [\<lparr>name = get_game_name_from_path root file, path = join root file\<rparr>]
        else games)"

text \<open>
  \<open>os.walk(directory)\<close>, top down, with the loop body of \<open>scan_directory_deep\<close> run at each
  visited directory \<open>root\<close>: its files are examined first, then \<open>dirs[:] = []\<close> prunes the
  descent when \<open>root.count(os.sep) - directory.count(os.sep) > 2\<close>. A directory that
  cannot be listed is skipped by \<open>os.walk\<close>.
\<close>

fun walk :: "string \<Rightarrow> string \<Rightarrow> fsnode \<Rightarrow> game list \<Rightarrow> game list"
  and walk_dirs :: "string \<Rightarrow> string \<Rightarrow> (string \<times> fsnode) list \<Rightarrow> game list \<Rightarrow> game list"
where
  "walk directory root File games = games"
| "walk directory root Denied games = games"
| "walk directory root (Dir entries) games =
     (let games' = deep_files root (files_of entries) games
      in if int (count_char sep root) - int (count_char sep directory) > 2 then games'
         else walk_dirs directory root entries games')"
| "walk_dirs directory root [] games = games"
| "walk_dirs directory root ((d, node) # entries) games =
     (if isdir node
      then walk_dirs directory root entries (walk directory (join root d) node games)
      else walk_dirs directory root entries games)"

definition scan_directory_deep :: "filesystem \<Rightarrow> string \<Rightarrow> game list \<Rightarrow> game list" where
  "scan_directory_deep fs directory games =
     (case fs directory of
        None \<Rightarrow> games
      | Some node \<Rightarrow> walk directory directory node games)"

text \<open>The inner loop of \<open>scan_directory_shallow\<close>, which breaks at the first hit.\<close>

fun shallow_files :: "string \<Rightarrow> string list \<Rightarrow> game list \<Rightarrow> game list" where
  "shallow_files item_path [] games = games"
| "shallow_files item_path (file # files) games =
     (if is_exe file \<and> is_likely_game file item_path
      then games @ [\<lparr>name = get_game_name_from_path item_path file,
                     path = join item_path file\<rparr>]
      else shallow_files item_path files games)"

fun shallow_items :: "string \<Rightarrow> (string \<times> fsnode) list \<Rightarrow> game list \<Rightarrow> game list" where
  "shallow_items directory [] games = games"
| "shallow_items directory ((item, node) # items) games =
     (let item_path = join directory item
      in if isdir node \<and> is_likely_game_directory item
         then (case node of
                 Dir entries \<Rightarrow>
                   shallow_items directory items
                     (shallow_files item_path (map fst entries) games)
               | _ \<Rightarrow> shallow_items directory items games)
         else shallow_items directory items games)"

definition scan_directory_shallow :: "filesystem \<Rightarrow> string \<Rightarrow> game list \<Rightarrow> game list" where
  "scan_directory_shallow fs directory games =
     (case fs directory of
        Some (Dir items) \<Rightarrow> shallow_items directory items games
      | _ \<Rightarrow> games)"

section \<open>Registry lookup\<close>

text \<open>
  The environment of a scan: the filesystem, the expansion of \<open>~\Desktop\<close>, and the
  \<open>InstallPath\<close> value of the Steam registry key (\<open>None\<close> when reading it raises).
\<close>

record environment =
  fs :: filesystem
  desktop :: string
  steam_install_path :: "string option"

fun registry_files :: "string \<Rightarrow> string \<Rightarrow> string list \<Rightarrow> game list \<Rightarrow> game list" where
  "registry_files game_dir game_path [] games = games"
| "registry_files game_dir game_path (file # files) games =
     (if is_exe file \<and> is_likely_game file game_path
      then games @ [\<lparr>name = game_dir, path = join game_path file\<rparr>]
      else registry_files game_dir game_path files games)"

text \<open>
  The loop over \<open>os.listdir(steamapps_path)\<close>. A game directory that cannot be listed
  raises into the enclosing \<open>except Exception\<close>, which ends the loop with what was found.
\<close>

fun registry_items :: "string \<Rightarrow> (string \<times> fsnode) list \<Rightarrow> game list \<Rightarrow> game list" where
  "registry_items steamapps_path [] games = games"
| "registry_items steamapps_path ((game_dir, node) # items) games =
     (case node of
        File \<Rightarrow> registry_items steamapps_path items games
      | Denied \<Rightarrow> games
      | Dir entries \<Rightarrow>
          registry_items steamapps_path items
            (registry_files game_dir (join steamapps_path game_dir) (map fst entries) games))"

definition get_registry_games :: "environment \<Rightarrow> game list" where
  "get_registry_games env =
     (case steam_install_path env of
        None \<Rightarrow> []
      | Some install_path \<Rightarrow>
          (let steamapps_path = join (join install_path ''steamapps'') ''common''
           in case fs env steamapps_path of
                Some (Dir items) \<Rightarrow> registry_items steamapps_path items []
              | _ \<Rightarrow> []))"

section \<open>Deduplication and reconciliation\<close>

text \<open>The key \<open>game['name'].lower().replace(' ', '')\<close>.\<close>

definition dedup_key :: "game \<Rightarrow> string" where
  "dedup_key g = remove_char CHR '' '' (lower (name g))"

text \<open>The loop that fills \<open>seen\<close> and \<open>unique_games\<close>.\<close>

fun dedup_loop :: "string set \<Rightarrow> game list \<Rightarrow> game list \<Rightarrow> game list" where
  "dedup_loop seen unique_games [] = unique_games"
| "dedup_loop seen unique_games (g # gs) =
     (let key = dedup_key g
      in if key \<notin> seen then dedup_loop (insert key seen) (unique_games @ [g]) gs
         else dedup_loop seen unique_games gs)"

text \<open>
  \<open>sorted(xs, key=lambda x: x['name'].lower())\<close>. Python's sort is stable; \<open>sort_key\<close> is
  the stable insertion sort of the list library, and a stable sort by a linearly ordered key
  has one result only.
\<close>

definition sorted_by_name :: "game list \<Rightarrow> game list" where
  "sorted_by_name xs = sort_key (\<lambda>x. lower (name x)) xs"

text \<open>Lines 460 to 472 of \<open>scan_for_games\<close>: from the raw candidates to the new game list.\<close>

definition reconcile :: "game list \<Rightarrow> game list \<Rightarrow> game list" where
  "reconcile games deleted =
     (let unique_games = dedup_loop {} [] games;
          deleted_paths = map path deleted;
          filtered = filter (\<lambda>g. path g \<notin> set deleted_paths) unique_games
      in sorted_by_name filtered)"

section \<open>The launcher\<close>

text \<open>
  The two override documents as the program finds them on disk: absent, present but not
  readable as JSON (or not readable at all), or holding a list of records.
\<close>

datatype document = Missing | Corrupt | Content "game list"

datatype read_error = FileNotFoundError | JSONDecodeError

text \<open>\<open>open(file, 'r')\<close> followed by \<open>json.load\<close>.\<close>

definition read_document :: "document \<Rightarrow> read_error + game list" where
  "read_document doc =
     (case doc of
        Missing \<Rightarrow> Inl FileNotFoundError
      | Corrupt \<Rightarrow> Inl JSONDecodeError
      | Content gs \<Rightarrow> Inr gs)"

text \<open>
  Texts shown to the user are kept as values with their parameters instead of formatted
  strings.
\<close>

datatype status =
    Ready
  | ScanningForGames
  | ScanningCustomDirectory string
  | AddedFromCustomDirectory nat
  | NoGamesInDirectory
  | Restored string
  | Found nat
  | RemovedFromFavorites string
  | AddedToFavorites string
  | DeletedGame string
  | Launched string
  | GameNotFound
  | LaunchFailed

datatype progress = NoProgress | Initializing | Scanning string nat nat | CheckingRegistry

datatype quick = NoQuickStats | Matching nat string | Total nat

datatype dialog = SaveFavoritesError | SaveDeletedError | GameNotFoundError string | LaunchError

datatype log_line = ErrorLoadingFavorites | ErrorLoadingDeleted

text \<open>What \<open>root.after\<close> queues for the interface thread.\<close>

datatype callback =
    SetStatus status
  | SetProgress progress
  | UpdateIdletasks
  | UpdateGameLists
  | ScanGamesThread

text \<open>A card of a list view: the game and whether its star is filled.\<close>

type_synonym card = "game \<times> bool"

text \<open>
  The fields of \<open>GameLauncher\<close> together with what it reads and writes outside itself:
  the two documents, how often each was written, whether opening them for writing
  succeeds, the widgets' contents, the queue of \<open>root.after\<close>, the number of running scan
  threads, and what was printed or shown in a message box.
\<close>

record launcher =
  games :: "game list"
  favorites :: "game list"
  deleted_games :: "game list"
  filtered_games :: "game list"
  scanning :: bool
  favorites_json :: document
  deleted_json :: document
  favorites_writes :: nat
  deleted_writes :: nat
  writable :: bool
  search_var :: string
  status_label :: status
  progress_var :: progress
  stats_label :: "nat \<times> nat \<times> nat"
  quick_stats :: quick
  all_view :: "card list"
  favorites_view :: "card list"
  deleted_view :: "card list"
  after_queue :: "callback list"
  scan_threads :: nat
  stdout :: "log_line list"
  dialogs :: "dialog list"

definition load_favorites :: "launcher \<Rightarrow> launcher" where
  "load_favorites st =
     (if favorites_json st \<noteq> Missing
      then (case read_document (favorites_json st) of
              Inr gs \<Rightarrow> st\<lparr>favorites := gs\<rparr>
            | Inl e \<Rightarrow> st\<lparr>stdout := stdout st @ [ErrorLoadingFavorites], favorites := []\<rparr>)
      else st)"

definition save_favorites :: "launcher \<Rightarrow> launcher" where
  "save_favorites st =
     (if writable st
      then st\<lparr>favorites_json := Content (favorites st),
              favorites_writes := Suc (favorites_writes st)\<rparr>
      else st\<lparr>dialogs := dialogs st @ [SaveFavoritesError]\<rparr>)"

definition load_deleted_games :: "launcher \<Rightarrow> launcher" where
  "load_deleted_games st =
     (if deleted_json st \<noteq> Missing
      then (case read_document (deleted_json st) of
              Inr gs \<Rightarrow> st\<lparr>deleted_games := gs\<rparr>
            | Inl e \<Rightarrow> st\<lparr>stdout := stdout st @ [ErrorLoadingDeleted], deleted_games := []\<rparr>)
      else st)"

definition save_deleted_games :: "launcher \<Rightarrow> launcher" where
  "save_deleted_games st =
     (if writable st
      then st\<lparr>deleted_json := Content (deleted_games st),
              deleted_writes := Suc (deleted_writes st)\<rparr>
      else st\<lparr>dialogs := dialogs st @ [SaveDeletedError]\<rparr>)"

text \<open>\<open>__init__\<close>: empty collections, the two loads, and the scan queued for start-up.\<close>

definition init :: "document \<Rightarrow> document \<Rightarrow> bool \<Rightarrow> launcher" where
  "init fav_doc del_doc w =
     (let st = \<lparr>games = [], favorites = [], deleted_games = [], filtered_games = [],
                scanning = False, favorites_json = fav_doc, deleted_json = del_doc,
                favorites_writes = 0, deleted_writes = 0, writable = w, search_var = [],
                status_label = Ready, progress_var = NoProgress, stats_label = (0, 0, 0),
                quick_stats = NoQuickStats, all_view = [], favorites_view = [],
                deleted_view = [], after_queue = [], scan_threads = 0, stdout = [],
                dialogs = []\<rparr>
      in (load_deleted_games (load_favorites st))\<lparr>after_queue := [ScanGamesThread]\<rparr>)"

text \<open>The star test of \<open>create_modern_game_card\<close>.\<close>

definition is_favorite :: "launcher \<Rightarrow> game \<Rightarrow> bool" where
  "is_favorite st g = list_ex (\<lambda>f. name f = name g) (favorites st)"

text \<open>\<open>populate_modern_game_list\<close>: one card for each game of the list.\<close>

definition cards :: "launcher \<Rightarrow> game list \<Rightarrow> card list" where
  "cards st gs = map (\<lambda>g. (g, is_favorite st g)) gs"

definition populate_favorites_list :: "launcher \<Rightarrow> launcher" where
  "populate_favorites_list st =
     (let st1 = st\<lparr>favorites :=
                   filter (\<lambda>f. path f \<notin> set (map path (deleted_games st))) (favorites st)\<rparr>
      in st1\<lparr>favorites_view := cards st1 (favorites st1)\<rparr>)"

definition populate_deleted_list :: "launcher \<Rightarrow> launcher" where
  "populate_deleted_list st = st\<lparr>deleted_view := cards st (deleted_games st)\<rparr>"

definition update_game_lists :: "launcher \<Rightarrow> launcher" where
  "update_game_lists st =
     (let st1 = st\<lparr>all_view := cards st (filtered_games st)\<rparr>;
          st2 = populate_favorites_list st1;
          st3 = populate_deleted_list st2
      in st3\<lparr>stats_label :=
               (length (games st3), length (favorites st3), length (deleted_games st3)),
             status_label := Found (length (games st3))\<rparr>)"

definition filter_games :: "launcher \<Rightarrow> launcher" where
  "filter_games st =
     (let query = lower (search_var st);
          st1 = st\<lparr>filtered_games :=
                     (if query = [] then games st
                      else filter (\<lambda>g. str_in query (lower (name g))) (games st))\<rparr>;
          st2 = st1\<lparr>all_view := cards st1 (filtered_games st1)\<rparr>
      in st2\<lparr>quick_stats :=
               (if query \<noteq> [] then Matching (length (filtered_games st2)) query
                else Total (length (games st2)))\<rparr>)"

definition toggle_favorite :: "game \<Rightarrow> launcher \<Rightarrow> launcher" where
  "toggle_favorite g st =
     (let favorite_names = map name (favorites st);
          st1 = (if name g \<in> set favorite_names
                 then st\<lparr>favorites := filter (\<lambda>f. name f \<noteq> name g) (favorites st),
                         status_label := RemovedFromFavorites (name g)\<rparr>
                 else st\<lparr>favorites := favorites st @ [g],
                         status_label := AddedToFavorites (name g)\<rparr>)
      in update_game_lists (save_favorites st1))"

text \<open>\<open>delete_game\<close>; \<open>result\<close> is the answer to the confirmation dialog.\<close>

definition delete_game :: "game \<Rightarrow> bool \<Rightarrow> launcher \<Rightarrow> launcher" where
  "delete_game g result st =
     (if result
      then (let st1 = st\<lparr>deleted_games := deleted_games st @ [g],
                         games := filter (\<lambda>x. path x \<noteq> path g) (games st),
                         favorites := filter (\<lambda>f. path f \<noteq> path g) (favorites st),
                         filtered_games :=
                           filter (\<lambda>x. path x \<noteq> path g) (filtered_games st)\<rparr>
            in (update_game_lists (save_favorites (save_deleted_games st1)))
                 \<lparr>status_label := DeletedGame (name g)\<rparr>)
      else st)"

definition restore_game :: "game \<Rightarrow> launcher \<Rightarrow> launcher" where
  "restore_game g st =
     (let st1 = st\<lparr>deleted_games := filter (\<lambda>x. path x \<noteq> path g) (deleted_games st),
                   games := sorted_by_name (games st @ [g])\<rparr>;
          st2 = filter_games (st1\<lparr>filtered_games := games st1\<rparr>)
      in (update_game_lists (save_deleted_games st2))\<lparr>status_label := Restored (name g)\<rparr>)"

definition scan_games_thread :: "launcher \<Rightarrow> launcher" where
  "scan_games_thread st =
     (if scanning st then st
      else st\<lparr>scanning := True,
              after_queue := after_queue st @ [SetStatus ScanningForGames, SetProgress Initializing],
              scan_threads := Suc (scan_threads st)\<rparr>)"

definition refresh_games :: "launcher \<Rightarrow> launcher" where
  "refresh_games st = (if \<not> scanning st then scan_games_thread st else st)"

fun win_path :: "string list \<Rightarrow> string" where
  "win_path [] = []"
| "win_path [p] = p"
| "win_path (p # q # ps) = p @ [sep] @ win_path (q # ps)"

definition game_dirs :: "environment \<Rightarrow> string list" where
  "game_dirs env =
     [win_path [''C:'', ''Users'', ''GIGABYTE'', ''Downloads'', ''games''],
      win_path [''D:'', ''games''],
      win_path [''C:'', ''Program Files (x86)'', ''Steam'', ''steamapps'', ''common''],
      win_path [''C:'', ''Program Files'', ''Steam'', ''steamapps'', ''common''],
      win_path [''C:'', ''Program Files'', ''Epic Games''],
      win_path [''C:'', ''Program Files (x86)'', ''Epic Games''],
      win_path [''C:'', ''Program Files'', ''Origin Games''],
      win_path [''C:'', ''Program Files (x86)'', ''Origin Games''],
      win_path [''C:'', ''Program Files'', ''EA Games''],
      win_path [''C:'', ''Program Files (x86)'', ''EA Games''],
      win_path [''C:'', ''Program Files'', ''Ubisoft''],
      win_path [''C:'', ''Program Files (x86)'', ''Ubisoft''],
      win_path [''C:'', ''Riot Games''],
      win_path [''C:'', ''Program Files (x86)'', ''Battle.net''],
      win_path [''C:'', ''Program Files'', ''Battle.net''],
      win_path [''C:'', ''GOG Games''],
      win_path [''C:'', ''Program Files'', ''GOG Galaxy'', ''Games''],
      win_path [''C:'', ''XboxGames''],
      win_path [''C:'', ''Program Files'', ''Rockstar Games''],
      win_path [''C:'', ''Program Files (x86)'', ''Rockstar Games''],
      desktop env]"

definition use_deep :: "string \<Rightarrow> bool" where
  "use_deep directory =
     any_in [''steam'', ''epic'', ''origin'', ''ubisoft'', ''riot'', ''battle.net'', ''gog'',
             ''games'']
       (lower directory)"

text \<open>
  The loop over \<open>game_dirs\<close>: the candidates found so far and the callbacks queued so far.
\<close>

fun scan_dirs ::
  "environment \<Rightarrow> nat \<Rightarrow> nat \<Rightarrow> string list \<Rightarrow> game list \<times> callback list \<Rightarrow>
   game list \<times> callback list"
where
  "scan_dirs env total_dirs i [] acc = acc"
| "scan_dirs env total_dirs i (directory # ds) (found, queue) =
     scan_dirs env total_dirs (Suc i) ds
       (if fs env directory \<noteq> None
        then (if use_deep directory then scan_directory_deep (fs env) directory found
              else scan_directory_shallow (fs env) directory found)
        else found,
        queue @ [SetProgress (Scanning (basename directory) (i + 1) total_dirs),
                 UpdateIdletasks])"

text \<open>The raw candidate list of a full scan: the roots in order, then the registry.\<close>

definition root_candidates :: "environment \<Rightarrow> game list" where
  "root_candidates env =
     fst (scan_dirs env (length (game_dirs env)) 0 (game_dirs env) ([], []))"

definition raw_candidates :: "environment \<Rightarrow> game list" where
  "raw_candidates env = root_candidates env @ get_registry_games env"

text \<open>
  The body of the scan thread, taken as one step: it reads \<open>deleted_games\<close> and replaces
  \<open>games\<close> and \<open>filtered_games\<close>. In the typed model no statement of the body raises, so
  the handler of the outer \<open>try\<close> has no branch; the \<open>finally\<close> clause always runs.
\<close>

definition scan_for_games :: "environment \<Rightarrow> launcher \<Rightarrow> launcher" where
  "scan_for_games env st =
     (let (found, queue) =
            scan_dirs env (length (game_dirs env)) 0 (game_dirs env) ([], after_queue st);
          found' = found @ get_registry_games env;
          new_games = reconcile found' (deleted_games st)
      in st\<lparr>games := new_games,
            filtered_games := new_games,
            scanning := False,
            after_queue :=
              queue @ [SetProgress CheckingRegistry, UpdateGameLists, SetProgress NoProgress],
            scan_threads := scan_threads st - 1\<rparr>)"

text \<open>\<open>add_custom_path\<close>; \<open>directory\<close> is what the directory dialog returned.\<close>

definition add_custom_path :: "environment \<Rightarrow> string \<Rightarrow> launcher \<Rightarrow> launcher" where
  "add_custom_path env directory st =
     (if directory \<noteq> []
      then (let st1 = st\<lparr>status_label := ScanningCustomDirectory directory\<rparr>;
                found = scan_directory_deep (fs env) directory []
            in if found \<noteq> []
               then (let deleted_paths = map path (deleted_games st1);
                         new_games = filter (\<lambda>g. path g \<notin> set deleted_paths) found;
                         existing_paths = map path (games st1);
                         added = filter (\<lambda>g. path g \<notin> set existing_paths) new_games;
                         all_games = sorted_by_name (games st1 @ added);
                         st2 = st1\<lparr>games := all_games, filtered_games := all_games\<rparr>
                     in (update_game_lists st2)
                          \<lparr>status_label := AddedFromCustomDirectory (length new_games)\<rparr>)
               else st1\<lparr>status_label := NoGamesInDirectory\<rparr>)
      else st)"

text \<open>\<open>launch_game\<close>; \<open>started\<close> tells whether \<open>os.startfile\<close> returned without raising.\<close>

definition launch_game :: "environment \<Rightarrow> bool \<Rightarrow> string \<Rightarrow> launcher \<Rightarrow> launcher" where
  "launch_game env started game_path st =
     (if fs env game_path \<noteq> None
      then (if started then st\<lparr>status_label := Launched (basename game_path)\<rparr>
            else st\<lparr>dialogs := dialogs st @ [LaunchError], status_label := LaunchFailed\<rparr>)
      else st\<lparr>dialogs := dialogs st @ [GameNotFoundError game_path],
              status_label := GameNotFound\<rparr>)"

text \<open>The interface thread runs the oldest queued callback.\<close>

definition run_callback :: "launcher \<Rightarrow> launcher" where
  "run_callback st =
     (case after_queue st of
        [] \<Rightarrow> st
      | cb # rest \<Rightarrow>
          (let st1 = st\<lparr>after_queue := rest\<rparr>
           in case cb of
                SetStatus s \<Rightarrow> st1\<lparr>status_label := s\<rparr>
              | SetProgress p \<Rightarrow> st1\<lparr>progress_var := p\<rparr>
              | UpdateIdletasks \<Rightarrow> st1
              | UpdateGameLists \<Rightarrow> update_game_lists st1
              | ScanGamesThread \<Rightarrow> scan_games_thread st1))"

text \<open>
  Everything that can happen to a running launcher: the user's commands, a queued
  callback, a scan thread running its body, a restart of the program on the documents it
  left, and the disk becoming writable or not.
\<close>

datatype action =
    RefreshGames
  | AddCustomPath environment string
  | RestoreGame game
  | ToggleFavorite game
  | DeleteGame game bool
  | Search string
  | LaunchGame environment bool string
  | RunCallback
  | ScanThreadBody environment
  | Restart
  | SetWritable bool

fun step :: "action \<Rightarrow> launcher \<Rightarrow> launcher" where
  "step RefreshGames st = refresh_games st"
| "step (AddCustomPath env directory) st = add_custom_path env directory st"
| "step (RestoreGame g) st = restore_game g st"
| "step (ToggleFavorite g) st = toggle_favorite g st"
| "step (DeleteGame g result) st = delete_game g result st"
| "step (Search q) st = filter_games (st\<lparr>search_var := q\<rparr>)"
| "step (LaunchGame env started game_path) st = launch_game env started game_path st"
| "step RunCallback st = run_callback st"
| "step (ScanThreadBody env) st = (if 0 < scan_threads st then scan_for_games env st else st)"
| "step Restart st =
     (init (favorites_json st) (deleted_json st) (writable st))
       \<lparr>favorites_writes := favorites_writes st, deleted_writes := deleted_writes st\<rparr>"
| "step (SetWritable w) st = st\<lparr>writable := w\<rparr>"

text \<open>A run of the launcher: the actions of a list, applied in order.\<close>

fun run :: "action list \<Rightarrow> launcher \<Rightarrow> launcher" where
  "run [] st = st"
| "run (a # as) st = run as (step a st)"

section \<open>Reference definitions\<close>

text \<open>
  The first occurrence of each key, in input order: the entry at position \<open>i\<close> stays when no
  earlier entry has its key.
\<close>

definition first_occurrences :: "game list \<Rightarrow> game list" where
  "first_occurrences gs =
     map (\<lambda>i. gs ! i)
       (filter (\<lambda>i. dedup_key (gs ! i) \<notin> set (map dedup_key (take i gs))) [0..<length gs])"


text \<open>
  A traversal bounded by levels instead of separator counts: the directory itself and, when
  \<open>k > 0\<close>, its subdirectories with bound \<open>k - 1\<close>.
\<close>

fun levels_upto :: "nat \<Rightarrow> string \<Rightarrow> fsnode \<Rightarrow> game list \<Rightarrow> game list"
  and levels_upto_dirs :: "nat \<Rightarrow> string \<Rightarrow> (string \<times> fsnode) list \<Rightarrow> game list \<Rightarrow> game list"
where
  "levels_upto k root File found = found"
| "levels_upto k root Denied found = found"
| "levels_upto k root (Dir entries) found =
     (let found' = deep_files root (files_of entries) found
      in case k of
           0 \<Rightarrow> found'
         | Suc k' \<Rightarrow> levels_upto_dirs k' root entries found')"
| "levels_upto_dirs k root [] found = found"
| "levels_upto_dirs k root ((d, node) # entries) found =
     (if isdir node
      then levels_upto_dirs k root entries (levels_upto k (join root d) node found)
      else levels_upto_dirs k root entries found)"

text \<open>The candidate a scan emits for the file \<open>file\<close> of the directory at \<open>root\<close>.\<close>

definition candidate :: "string \<Rightarrow> string \<Rightarrow> game" where
  "candidate root file = \<lparr>name = get_game_name_from_path root file, path = join root file\<rparr>"

text \<open>
  \<open>at_path node ds node'\<close>: following the directory names \<open>ds\<close> downwards from \<open>node\<close>
  leads to \<open>node'\<close>, which is then \<open>length ds\<close> levels below \<open>node\<close>.
\<close>

inductive at_path :: "fsnode \<Rightarrow> string list \<Rightarrow> fsnode \<Rightarrow> bool" where
  here: "at_path node [] node"
| below: "(d, child) \<in> set entries \<Longrightarrow> isdir child \<Longrightarrow> at_path child ds node' \<Longrightarrow>
          at_path (Dir entries) (d # ds) node'"

text \<open>A path to which \<open>join\<close> appends a separator before the entry name.\<close>

definition joins_with_sep :: "string \<Rightarrow> bool" where
  "joins_with_sep p = (drive_tail p \<noteq> [] \<and> \<not> is_sep (last (drive_tail p)))"

text \<open>Entry names as a listing returns them: not empty and free of separators.\<close>

definition plain_name :: "string \<Rightarrow> bool" where
  "plain_name n = (n \<noteq> [] \<and> \<not> list_ex is_sep n)"

fun plain_tree :: "fsnode \<Rightarrow> bool"
  and plain_entries :: "(string \<times> fsnode) list \<Rightarrow> bool"
where
  "plain_tree File = True"
| "plain_tree Denied = True"
| "plain_tree (Dir entries) = plain_entries entries"
| "plain_entries [] = True"
| "plain_entries ((d, node) # entries) =
     (plain_name d \<and> plain_tree node \<and> plain_entries entries)"

text \<open>The test both scans apply to an entry name of the directory at \<open>item_path\<close>.\<close>

definition qualifies :: "string \<Rightarrow> string \<Rightarrow> bool" where
  "qualifies item_path file = (is_exe file \<and> is_likely_game file item_path)"

text \<open>The immediate children a shallow scan looks into.\<close>

definition admissible_children :: "(string \<times> fsnode) list \<Rightarrow> (string \<times> fsnode) list" where
  "admissible_children items =
     filter (\<lambda>child. isdir (snd child) \<and> is_likely_game_directory (fst child)) items"

definition entry_names :: "fsnode \<Rightarrow> string list" where
  "entry_names node = (case node of Dir entries \<Rightarrow> map fst entries | _ \<Rightarrow> [])"


text \<open>A child directory with a top-level entry of any kind whose name qualifies.\<close>

definition has_qualifying_entry :: "string \<Rightarrow> fsnode \<Rightarrow> bool" where
  "has_qualifying_entry item_path node = list_ex (qualifies item_path) (entry_names node)"

text \<open>The candidate for the first qualifying entry of a child directory.\<close>

definition first_candidate :: "string \<Rightarrow> string \<times> fsnode \<Rightarrow> game" where
  "first_candidate directory child =
     (let item_path = join directory (fst child);
          file = hd (filter (qualifies item_path) (entry_names (snd child)))
      in \<lparr>name = get_game_name_from_path item_path file, path = join item_path file\<rparr>)"




section \<open>Example inputs\<close>

text \<open>
  A small machine: two spellings of one title and one other game under \<open>D:\games\<close>, and
  a Steam library, known from the registry, that holds the other game again and one more.
\<close>

definition example_fs :: filesystem where
  "example_fs p =
     (if p = win_path [''D:'', ''games'']
      then Some (Dir [(''Half-Life'', Dir [(''hl.exe'', File)]),
                      (''HalfLife'', Dir [(''hl.exe'', File)]),
                      (''Doom'', Dir [(''setup.exe'', File), (''doom.exe'', File)])])
      else if p = win_path [''E:'', ''Steam'', ''steamapps'', ''common'']
      then Some (Dir [(''DOOM'', Dir [(''DOOMx64.exe'', File)]),
                      (''Portal 2'', Dir [(''portal2.exe'', File)])])
      else None)"

definition example_env :: environment where
  "example_env =
     \<lparr>fs = example_fs,
      desktop = win_path [''C:'', ''Users'', ''u'', ''Desktop''],
      steam_install_path = Some (win_path [''E:'', ''Steam''])\<rparr>"

definition half_life_1 :: game where
  "half_life_1 = \<lparr>name = ''Half-Life'',
                   path = win_path [''D:'', ''games'', ''Half-Life'', ''hl.exe'']\<rparr>"

definition half_life_2 :: game where
  "half_life_2 = \<lparr>name = ''HalfLife'',
                   path = win_path [''D:'', ''games'', ''HalfLife'', ''hl.exe'']\<rparr>"

definition doom_root :: game where
  "doom_root = \<lparr>name = ''Doom'', path = win_path [''D:'', ''games'', ''Doom'', ''doom.exe'']\<rparr>"

definition doom_steam :: game where
  "doom_steam = \<lparr>name = ''DOOM'',
                  path = win_path [''E:'', ''Steam'', ''steamapps'', ''common'', ''DOOM'',
                                   ''DOOMx64.exe'']\<rparr>"

definition portal :: game where
  "portal = \<lparr>name = ''Portal 2'',
              path = win_path [''E:'', ''Steam'', ''steamapps'', ''common'', ''Portal 2'',
                               ''portal2.exe'']\<rparr>"

text \<open>
  A deep-scan root with the same executable two, three and four levels below it.
\<close>

definition deep_tree :: fsnode where
  "deep_tree =
     Dir [(''a'', Dir [(''b'', Dir [(''doom.exe'', File),
                                    (''c'', Dir [(''doom.exe'', File),
                                                 (''d'', Dir [(''doom.exe'', File)])])])])]"

definition deep_fs :: filesystem where
  "deep_fs p = (if p = win_path [''D:'', ''games''] then Some deep_tree else None)"




section \<open>The classifier on fixed inputs\<close>

lemma clean_setup_exe: "clean ''setup.exe'' = ''setup.exe''"
  by (simp add: clean_def lower_def lower_char_def remove_char_def)

lemma clean_Minecraft_exe: "clean ''Minecraft.exe'' = ''minecraft.exe''"
  by (simp add: clean_def lower_def lower_char_def remove_char_def)

lemma clean_mine_craft_exe: "clean ''mine-craft.exe'' = ''minecraft.exe''"
  by (simp add: clean_def lower_def lower_char_def remove_char_def)

lemma setup_exe_blacklisted: "any_in blacklist ''setup.exe''"
  by (simp add: any_in_def blacklist_def)

lemma minecraft_exe_not_blacklisted: "\<not> any_in blacklist ''minecraft.exe''"
  by (simp add: any_in_def blacklist_def)

lemma minecraft_exe_popular: "any_in popular_games ''minecraft.exe''"
  by (simp add: any_in_def popular_games_def)

text \<open>
  Claim C6. Whatever the containing path, \<open>setup.exe\<close> is rejected and both
  \<open>Minecraft.exe\<close> and \<open>mine-craft.exe\<close> are accepted: the two accepted names have the same
  normal form \<open>minecraft.exe\<close>, which holds no blacklist term and holds the popular title
  \<open>minecraft\<close>, while the normal form of \<open>setup.exe\<close> holds the blacklist term \<open>setup\<close>.
\<close>

theorem is_likely_game_fixed_inputs:
  "\<not> is_likely_game ''setup.exe'' p \<and>
   is_likely_game ''Minecraft.exe'' p \<and>
   is_likely_game ''mine-craft.exe'' p \<and>
   clean ''Minecraft.exe'' = clean ''mine-craft.exe''"
  unfolding is_likely_game_def Let_def clean_setup_exe clean_Minecraft_exe clean_mine_craft_exe
  using setup_exe_blacklisted minecraft_exe_not_blacklisted minecraft_exe_popular
  by simp

theorem is_likely_game_fixed_inputs_witness:
  "\<not> is_likely_game ''setup.exe'' (win_path [''D:'', ''games'', ''Minecraft'']) \<and>
   is_likely_game ''Minecraft.exe'' (win_path [''C:'', ''Windows'', ''System32'']) \<and>
   is_likely_game ''mine-craft.exe'' []"
  using is_likely_game_fixed_inputs [of "win_path [''D:'', ''games'', ''Minecraft'']"]
    is_likely_game_fixed_inputs [of "win_path [''C:'', ''Windows'', ''System32'']"]
    is_likely_game_fixed_inputs [of "[]"]
  by blast

section \<open>Deduplication keeps first occurrences\<close>

lemma dedup_loop_snoc:
  "dedup_loop seen acc (gs @ [g]) =
     (if dedup_key g \<in> seen \<union> dedup_key ` set gs then dedup_loop seen acc gs
      else dedup_loop seen acc gs @ [g])"
  by (induction gs arbitrary: seen acc) (auto simp: Let_def)

lemma first_occurrences_snoc:
  "first_occurrences (gs @ [g]) =
     (if dedup_key g \<in> dedup_key ` set gs then first_occurrences gs
      else first_occurrences gs @ [g])"
proof -
  define P where "P = (\<lambda>i. dedup_key (gs ! i) \<notin> set (map dedup_key (take i gs)))"
  define Q where
    "Q = (\<lambda>i. dedup_key ((gs @ [g]) ! i) \<notin> set (map dedup_key (take i (gs @ [g]))))"
  have same_filter: "filter Q [0..<length gs] = filter P [0..<length gs]"
    by (rule filter_cong [OF refl]) (simp add: P_def Q_def nth_append)
  have same_map:
    "map ((!) (gs @ [g])) (filter P [0..<length gs]) = map ((!) gs) (filter P [0..<length gs])"
    by (rule map_cong [OF refl]) (simp add: nth_append)
  have last_one: "Q (length gs) \<longleftrightarrow> dedup_key g \<notin> dedup_key ` set gs"
    by (simp add: Q_def)
  have "first_occurrences (gs @ [g]) =
          map ((!) (gs @ [g])) (filter Q ([0..<length gs] @ [length gs]))"
    unfolding first_occurrences_def Q_def by simp
  also have "\<dots> = map ((!) (gs @ [g])) (filter P [0..<length gs]) @
                    (if Q (length gs) then [g] else [])"
    by (simp add: same_filter)
  also have "\<dots> = first_occurrences gs @ (if Q (length gs) then [g] else [])"
    using same_map by (simp add: first_occurrences_def P_def)
  finally show ?thesis
    by (simp add: last_one)
qed

lemma dedup_loop_first_occurrences: "dedup_loop {} [] gs = first_occurrences gs"
proof (induction gs rule: rev_induct)
  case Nil
  show ?case by (simp add: first_occurrences_def)
next
  case (snoc g gs)
  then show ?case by (simp add: dedup_loop_snoc first_occurrences_snoc)
qed

lemma first_occurrences_subset: "set (first_occurrences gs) \<subseteq> set gs"
  by (auto simp: first_occurrences_def)


lemma distinct_keys_first_occurrences: "distinct (map dedup_key (first_occurrences gs))"
proof (induction gs rule: rev_induct)
  case Nil
  show ?case by (simp add: first_occurrences_def)
next
  case (snoc g gs)
  have "dedup_key g \<notin> dedup_key ` set gs \<Longrightarrow>
        dedup_key g \<notin> dedup_key ` set (first_occurrences gs)"
    using first_occurrences_subset [of gs] by blast
  with snoc show ?case
    by (simp add: first_occurrences_snoc)
qed

section \<open>The reconciliation step of a full scan\<close>


lemma fst_scan_dirs:
  "fst (scan_dirs env t i ds (found, q)) = fst (scan_dirs env t i ds (found, q'))"
  by (induction ds arbitrary: i found q q') auto

lemma games_scan_for_games:
  "games (scan_for_games env st) = reconcile (raw_candidates env) (deleted_games st)"
  using fst_scan_dirs [of env "length (game_dirs env)" 0 "game_dirs env" "[]" "after_queue st" "[]"]
  by (simp add: scan_for_games_def raw_candidates_def root_candidates_def split_beta Let_def)

lemma deleted_scan_for_games: "deleted_games (scan_for_games env st) = deleted_games st"
  by (simp add: scan_for_games_def split_beta Let_def)


lemma set_reconcile:
  "set (reconcile cands deleted) =
     {g \<in> set (first_occurrences cands). path g \<notin> path ` set deleted}"
  by (auto simp: reconcile_def sorted_by_name_def dedup_loop_first_occurrences)

lemma distinct_keys_reconcile: "distinct (map dedup_key (reconcile cands deleted))"
proof -
  let ?kept = "filter (\<lambda>g. path g \<notin> set (map path deleted)) (first_occurrences cands)"
  have "mset (map dedup_key (sort_key (\<lambda>x. lower (name x)) ?kept)) = mset (map dedup_key ?kept)"
    by simp
  then have "distinct (map dedup_key (sort_key (\<lambda>x. lower (name x)) ?kept)) =
             distinct (map dedup_key ?kept)"
    by (rule mset_eq_imp_distinct_iff)
  moreover have "distinct (map dedup_key ?kept)"
    by (rule distinct_map_filter) (rule distinct_keys_first_occurrences)
  ultimately show ?thesis
    by (simp add: reconcile_def sorted_by_name_def dedup_loop_first_occurrences)
qed

lemma sorted_reconcile: "sorted (map (\<lambda>g. lower (name g)) (reconcile cands deleted))"
  by (simp add: reconcile_def sorted_by_name_def)

lemma example_root_candidates:
  "root_candidates example_env = [half_life_1, half_life_2, doom_root]"
  by code_simp

lemma example_registry_games: "get_registry_games example_env = [doom_steam, portal]"
  by code_simp

text \<open>
  Claim C1. After the reconciliation step of a full scan, and after a refresh of the
  favourites view (alone or as part of \<open>update_game_lists\<close>), an entry whose path is the
  path of a record of the deleted set is neither in the published game list nor in the
  favourites view, whether or not it was a favourite before. Neither pass changes the
  deleted set.
\<close>

theorem deletion_suppression:
  "path e \<in> path ` set (deleted_games st) \<Longrightarrow>
     e \<notin> set (games (scan_for_games env st)) \<and>
     e \<notin> set (favorites (populate_favorites_list st)) \<and>
     e \<notin> fst ` set (favorites_view (populate_favorites_list st)) \<and>
     e \<notin> fst ` set (favorites_view (update_game_lists st)) \<and>
     deleted_games (scan_for_games env st) = deleted_games st \<and>
     deleted_games (populate_favorites_list st) = deleted_games st \<and>
     deleted_games (update_game_lists st) = deleted_games st"
  by (auto simp: games_scan_for_games deleted_scan_for_games set_reconcile
      populate_favorites_list_def update_game_lists_def populate_deleted_list_def cards_def
      Let_def)

theorem deletion_suppression_witness:
  "portal \<in> set (favorites (init (Content [portal, doom_root]) (Content [portal]) True)) \<and>
   path portal \<in> path ` set (deleted_games (init (Content [portal, doom_root]) (Content [portal]) True)) \<and>
   portal \<in> set (raw_candidates example_env) \<and>
   portal \<notin> set (games (scan_for_games example_env
                          (init (Content [portal, doom_root]) (Content [portal]) True))) \<and>
   portal \<notin> fst ` set (favorites_view (populate_favorites_list
                          (init (Content [portal, doom_root]) (Content [portal]) True)))"
proof -
  let ?st = "init (Content [portal, doom_root]) (Content [portal]) True"
  have fav: "favorites ?st = [portal, doom_root]"
    by (simp add: init_def load_favorites_def load_deleted_games_def read_document_def)
  have del: "deleted_games ?st = [portal]"
    by (simp add: init_def load_favorites_def load_deleted_games_def read_document_def)
  have hyp: "path portal \<in> path ` set (deleted_games ?st)"
    by (simp add: del)
  have raw: "portal \<in> set (raw_candidates example_env)"
    by (simp add: raw_candidates_def example_root_candidates example_registry_games)
  show ?thesis
    using deletion_suppression [OF hyp, of example_env] fav hyp raw by simp
qed



text \<open>
  Claim C3, as stated, fails: the key of the scan removes spaces only, so two names that
  differ by a hyphen are both kept although they are equal once hyphens are removed too.
\<close>

theorem normalized_key_uniqueness_counterexample:
  "half_life_1 \<in> set (games (scan_for_games example_env (init Missing Missing True))) \<and>
   half_life_2 \<in> set (games (scan_for_games example_env (init Missing Missing True))) \<and>
   half_life_1 \<noteq> half_life_2 \<and>
   clean (name half_life_1) = clean (name half_life_2)"
proof -
  have del: "deleted_games (init Missing Missing True) = []"
    by (simp add: init_def load_favorites_def load_deleted_games_def)
  have raw: "raw_candidates example_env =
               [half_life_1, half_life_2, doom_root, doom_steam, portal]"
    by (simp add: raw_candidates_def example_root_candidates example_registry_games)
  have run: "reconcile [half_life_1, half_life_2, doom_root, doom_steam, portal] [] =
               [doom_root, half_life_1, half_life_2, portal]"
    by code_simp
  have ne: "half_life_1 \<noteq> half_life_2"
    by (simp add: half_life_1_def half_life_2_def)
  have eq: "clean (name half_life_1) = clean (name half_life_2)"
    by code_simp
  show ?thesis
    using ne eq by (simp add: games_scan_for_games del raw run)
qed

text \<open>
  Claim C3, amended. After every full scan no two entries of the published list have the
  same key of the scan: their names differ even after lower-casing and removing spaces.
\<close>

theorem dedup_key_uniqueness:
  "distinct (map dedup_key (games (scan_for_games env st)))"
  by (simp add: games_scan_for_games distinct_keys_reconcile)

theorem dedup_key_uniqueness_witness:
  "map dedup_key (games (scan_for_games example_env (init Missing Missing True))) =
     [''doom'', ''half-life'', ''halflife'', ''portal2''] \<and>
   distinct (map dedup_key (games (scan_for_games example_env (init Missing Missing True))))"
proof -
  have del: "deleted_games (init Missing Missing True) = []"
    by (simp add: init_def load_favorites_def load_deleted_games_def)
  have raw: "raw_candidates example_env =
               [half_life_1, half_life_2, doom_root, doom_steam, portal]"
    by (simp add: raw_candidates_def example_root_candidates example_registry_games)
  have run: "map dedup_key
               (reconcile [half_life_1, half_life_2, doom_root, doom_steam, portal] []) =
             [''doom'', ''half-life'', ''halflife'', ''portal2'']"
    by code_simp
  show ?thesis
    using dedup_key_uniqueness [of example_env "init Missing Missing True"]
    by (simp add: games_scan_for_games del raw run)
qed

section \<open>Deep scan: separator counts and levels\<close>

lemma sep_not_in_plain: "plain_name d \<Longrightarrow> sep \<notin> set d"
  by (auto simp: plain_name_def list_ex_iff is_sep_def)

lemma join_with_sep: "joins_with_sep root \<Longrightarrow> join root d = root @ [sep] @ d"
  by (simp add: join_def joins_with_sep_def Let_def)

lemma count_char_join:
  assumes j: "joins_with_sep root" and p: "plain_name d"
  shows "count_char sep (join root d) = Suc (count_char sep root)"
proof -
  have "filter (\<lambda>x. x = sep) d = []"
    using sep_not_in_plain [OF p] by (auto simp: filter_empty_conv)
  then show ?thesis
    by (simp add: join_with_sep [OF j] count_char_def)
qed

lemma joins_with_sep_join:
  assumes "joins_with_sep root" and "plain_name d"
  shows "joins_with_sep (join root d)"
proof -
  have root_ne: "root \<noteq> []"
    using assms(1) by (auto simp: joins_with_sep_def drive_tail_def)
  have d_ne: "d \<noteq> []" and last_d: "\<not> is_sep (last d)"
    using assms(2) by (auto simp: plain_name_def list_ex_iff)
  let ?p = "root @ [sep] @ d"
  have len: "3 \<le> length ?p"
    using root_ne d_ne by (cases root; cases d) auto
  have "drive_tail ?p \<noteq> []"
    using len by (auto simp: drive_tail_def)
  moreover have "last (drive_tail ?p) = last d"
    using len d_ne by (auto simp: drive_tail_def last_drop)
  ultimately show ?thesis
    using last_d assms(1) by (simp add: join_with_sep joins_with_sep_def)
qed

text \<open>
  With \<open>k\<close> levels left below a directory whose separator count exceeds the root's by
  \<open>3 - k\<close>, the walk of the scan is the traversal bounded by \<open>k\<close> levels.
\<close>

lemma walk_levels:
  "(\<forall>k. joins_with_sep root \<longrightarrow> plain_tree node \<longrightarrow> k \<le> 3 \<longrightarrow>
        int (count_char sep root) - int (count_char sep directory) = 3 - int k \<longrightarrow>
        walk directory root node found = levels_upto k root node found)"
  "(\<forall>k. joins_with_sep root \<longrightarrow> plain_entries entries \<longrightarrow> k \<le> 2 \<longrightarrow>
        int (count_char sep root) - int (count_char sep directory) = 2 - int k \<longrightarrow>
        walk_dirs directory root entries found = levels_upto_dirs k root entries found)"
proof (induction directory root node found and directory root entries found
    rule: walk_walk_dirs.induct)
  case (1 directory root found)
  show ?case by simp
next
  case (2 directory root found)
  show ?case by simp
next
  case (3 directory root entries found)
  show ?case
  proof (intro allI impI)
    fix k :: nat
    assume j: "joins_with_sep root" and p: "plain_tree (Dir entries)" and k: "k \<le> 3"
      and d: "int (count_char sep root) - int (count_char sep directory) = 3 - int k"
    show "walk directory root (Dir entries) found = levels_upto k root (Dir entries) found"
    proof (cases k)
      case 0
      with d show ?thesis by (simp add: Let_def)
    next
      case (Suc k')
      with d have small: "\<not> 2 < int (count_char sep root) - int (count_char sep directory)"
        by simp
      have "walk_dirs directory root entries (deep_files root (files_of entries) found) =
            levels_upto_dirs k' root entries (deep_files root (files_of entries) found)"
        using "3.IH" [OF refl small] j p k d Suc by simp
      with small Suc show ?thesis by (simp add: Let_def)
    qed
  qed
next
  case (4 directory root found)
  show ?case by simp
next
  case (5 directory root d node entries found)
  show ?case
  proof (intro allI impI)
    fix k :: nat
    assume j: "joins_with_sep root" and p: "plain_entries ((d, node) # entries)"
      and k: "k \<le> 2"
      and c: "int (count_char sep root) - int (count_char sep directory) = 2 - int k"
    have pd: "plain_name d" and pn: "plain_tree node" and pe: "plain_entries entries"
      using p by simp_all
    have j': "joins_with_sep (join root d)"
      using j pd by (rule joins_with_sep_join)
    have c': "int (count_char sep (join root d)) - int (count_char sep directory) = 3 - int k"
      using c count_char_join [OF j pd] by simp
    show "walk_dirs directory root ((d, node) # entries) found =
          levels_upto_dirs k root ((d, node) # entries) found"
    proof (cases "isdir node")
      case True
      have a: "walk directory (join root d) node found = levels_upto k (join root d) node found"
        using "5.IH"(1) [OF True] j' pn k c' by simp
      have "walk_dirs directory root entries (walk directory (join root d) node found) =
            levels_upto_dirs k root entries (walk directory (join root d) node found)"
        using "5.IH"(2) [OF True] j pe k c by simp
      with a True show ?thesis by simp
    next
      case False
      have "walk_dirs directory root entries found = levels_upto_dirs k root entries found"
        using "5.IH"(3) [OF False] j pe k c by simp
      with False show ?thesis by simp
    qed
  qed
qed

lemma deep_files_extends: "\<exists>new. deep_files root files found = found @ new"
  by (induction files arbitrary: found) (auto, metis append.assoc)

lemma walk_extends:
  "\<exists>new. walk directory root node found = found @ new"
  "\<exists>new. walk_dirs directory root entries found = found @ new"
proof (induction directory root node found and directory root entries found
    rule: walk_walk_dirs.induct)
  case (3 directory root entries found)
  obtain n1 where n1: "deep_files root (files_of entries) found = found @ n1"
    using deep_files_extends by blast
  show ?case
  proof (cases "2 < int (count_char sep root) - int (count_char sep directory)")
    case True
    then show ?thesis using n1 by (simp add: Let_def)
  next
    case False
    obtain n2 where
      "walk_dirs directory root entries (deep_files root (files_of entries) found) =
         deep_files root (files_of entries) found @ n2"
      using "3.IH" [OF refl False] by blast
    then show ?thesis using n1 False by (simp add: Let_def)
  qed
next
  case (5 directory root d node entries found)
  show ?case
  proof (cases "isdir node")
    case True
    obtain n1 where n1: "walk directory (join root d) node found = found @ n1"
      using "5.IH"(1) [OF True] by blast
    obtain n2 where
      "walk_dirs directory root entries (walk directory (join root d) node found) =
         walk directory (join root d) node found @ n2"
      using "5.IH"(2) [OF True] by blast
    then show ?thesis using n1 True by simp
  next
    case False
    then show ?thesis using "5.IH"(3) [OF False] by simp
  qed
qed simp_all

lemma scan_directory_deep_extends:
  "\<exists>new. scan_directory_deep disk directory found = found @ new"
  by (cases "disk directory") (simp_all add: scan_directory_deep_def walk_extends(1))

text \<open>The bounded traversal, level by level.\<close>

lemma deep_files_candidates:
  "deep_files root files found = found @ map (candidate root) (filter (qualifies root) files)"
  by (induction files arbitrary: found) (simp_all add: candidate_def qualifies_def)

lemma levels_upto_acc_all:
  fixes found :: "game list"
  shows "(\<forall>acc. levels_upto k root node acc = acc @ levels_upto k root node [])"
    and "(\<forall>acc. levels_upto_dirs k root entries acc = acc @ levels_upto_dirs k root entries [])"
proof (induction k root node found and k root entries found
    rule: levels_upto_levels_upto_dirs.induct)
  case (3 k root entries found)
  show ?case
  proof (cases k)
    case 0
    then show ?thesis by (simp add: Let_def deep_files_candidates)
  next
    case (Suc k')
    have ih: "\<And>acc. levels_upto_dirs k' root entries acc =
                 acc @ levels_upto_dirs k' root entries []"
      using "3.IH" [OF refl Suc] by blast
    let ?m = "map (candidate root) (filter (qualifies root) (files_of entries))"
    show ?thesis
    proof
      fix acc
      have a: "levels_upto k root (Dir entries) acc =
                 acc @ ?m @ levels_upto_dirs k' root entries []"
        using ih [of "acc @ ?m"] by (simp add: Suc Let_def deep_files_candidates)
      have b: "levels_upto k root (Dir entries) [] = ?m @ levels_upto_dirs k' root entries []"
        using ih [of ?m] by (simp add: Suc Let_def deep_files_candidates)
      show "levels_upto k root (Dir entries) acc = acc @ levels_upto k root (Dir entries) []"
        by (simp only: a b)
    qed
  qed
next
  case (5 k root d node entries found)
  show ?case
  proof (cases "isdir node")
    case True
    have ih1: "\<And>acc. levels_upto k (join root d) node acc =
                 acc @ levels_upto k (join root d) node []"
      using "5.IH"(1) [OF True] by blast
    have ih2: "\<And>acc. levels_upto_dirs k root entries acc =
                 acc @ levels_upto_dirs k root entries []"
      using "5.IH"(2) [OF True] by blast
    show ?thesis
    proof
      fix acc
      have "levels_upto_dirs k root ((d, node) # entries) acc =
              levels_upto_dirs k root entries (levels_upto k (join root d) node acc)"
        using True by simp
      also have "\<dots> = levels_upto k (join root d) node acc @ levels_upto_dirs k root entries []"
        by (rule ih2)
      also have "\<dots> = acc @ levels_upto k (join root d) node [] @
                         levels_upto_dirs k root entries []"
        by (subst ih1) simp
      finally have a: "levels_upto_dirs k root ((d, node) # entries) acc =
                 acc @ levels_upto k (join root d) node [] @ levels_upto_dirs k root entries []" .
      have b: "levels_upto_dirs k root ((d, node) # entries) [] =
                 levels_upto k (join root d) node [] @ levels_upto_dirs k root entries []"
        using True ih2 [of "levels_upto k (join root d) node []"] by simp
      show "levels_upto_dirs k root ((d, node) # entries) acc =
                    acc @ levels_upto_dirs k root ((d, node) # entries) []"
        by (simp only: a b)
    qed
  next
    case False
    have ih3: "\<And>acc. levels_upto_dirs k root entries acc =
                 acc @ levels_upto_dirs k root entries []"
      using "5.IH"(3) [OF False] by blast
    have skip: "\<And>acc. levels_upto_dirs k root ((d, node) # entries) acc =
                 levels_upto_dirs k root entries acc"
      using False by simp
    show ?thesis
      by (metis ih3 skip)
  qed
qed simp_all


lemma levels_upto_acc:
  "levels_upto k root node acc = acc @ levels_upto k root node []"
  "levels_upto_dirs k root entries acc = acc @ levels_upto_dirs k root entries []"
  using levels_upto_acc_all by blast+

lemma levels_upto_Dir:
  "levels_upto k root (Dir entries) [] =
     map (candidate root) (filter (qualifies root) (files_of entries)) @
     (case k of 0 \<Rightarrow> [] | Suc k' \<Rightarrow> levels_upto_dirs k' root entries [])"
proof (cases k)
  case 0
  then show ?thesis by (simp add: Let_def deep_files_candidates)
next
  case (Suc k')
  let ?m = "map (candidate root) (filter (qualifies root) (files_of entries))"
  have "levels_upto_dirs k' root entries ?m = ?m @ levels_upto_dirs k' root entries []"
    by (rule levels_upto_acc(2))
  then show ?thesis by (simp add: Suc Let_def deep_files_candidates)
qed

lemma set_levels_upto_dirs:
  "set (levels_upto_dirs k root entries []) =
     (\<Union>e \<in> set entries. if isdir (snd e) then set (levels_upto k (join root (fst e)) (snd e) [])
                          else {})"
proof (induction entries)
  case Nil
  show ?case by simp
next
  case (Cons e entries)
  obtain d node where e: "e = (d, node)" by (cases e)
  show ?case
    using Cons.IH levels_upto_acc(2) [of k root entries "levels_upto k (join root d) node []"]
    by (simp add: e)
qed

lemma at_path_returned:
  assumes "at_path node ds (Dir entries)" and "length ds \<le> k"
    and "f \<in> set (files_of entries)" and "qualifies (foldl join root ds) f"
  shows "candidate (foldl join root ds) f \<in> set (levels_upto k root node [])"
  using assms
proof (induction node ds "Dir entries" arbitrary: root k rule: at_path.induct)
  case here
  then show ?case by (simp add: levels_upto_Dir del: levels_upto.simps(3))
next
  case (below d child es ds)
  obtain k' where k: "k = Suc k'" and len: "length ds \<le> k'"
    using below.prems(1) by (cases k) auto
  have "candidate (foldl join (join root d) ds) f \<in> set (levels_upto k' (join root d) child [])"
    using below.hyps(4) [OF len below.prems(2)] below.prems(3) by simp
  then have "candidate (foldl join (join root d) ds) f \<in> set (levels_upto_dirs k' root es [])"
    using below.hyps(1,2) by (force simp: set_levels_upto_dirs)
  then show ?case
    by (simp add: k levels_upto_Dir del: levels_upto.simps(3))
qed

lemma returned_at_path:
  "g \<in> set (levels_upto k root node []) \<Longrightarrow>
     \<exists>ds entries f. length ds \<le> k \<and> at_path node ds (Dir entries) \<and>
       f \<in> set (files_of entries) \<and> qualifies (foldl join root ds) f \<and>
       g = candidate (foldl join root ds) f"
proof (induction k arbitrary: root node g)
  case 0
  show ?case
  proof (cases node)
    case (Dir entries)
    with 0 obtain f where "f \<in> set (files_of entries)" "qualifies root f" "g = candidate root f"
      by (auto simp: levels_upto_Dir simp del: levels_upto.simps(3))
    then show ?thesis
      using Dir at_path.here [of node] by (intro exI [of _ "[]"] exI [of _ entries] exI [of _ f]) simp
  qed (use 0 in simp_all)
next
  case (Suc k)
  show ?case
  proof (cases node)
    case (Dir entries)
    from Suc.prems consider
        (files) f where "f \<in> set (files_of entries)" "qualifies root f" "g = candidate root f"
      | (deeper) "g \<in> set (levels_upto_dirs k root entries [])"
      by (auto simp: Dir levels_upto_Dir simp del: levels_upto.simps(3))
    then show ?thesis
    proof cases
      case files
      then show ?thesis
        using Dir at_path.here [of node]
        by (intro exI [of _ "[]"] exI [of _ entries] exI [of _ f]) simp
    next
      case deeper
      then obtain d child where e: "(d, child) \<in> set entries" "isdir child"
        and g: "g \<in> set (levels_upto k (join root d) child [])"
        by (auto simp: set_levels_upto_dirs split: if_splits)
      from Suc.IH [OF g] obtain ds es f where
        "length ds \<le> k" "at_path child ds (Dir es)" "f \<in> set (files_of es)"
        "qualifies (foldl join (join root d) ds) f" "g = candidate (foldl join (join root d) ds) f"
        by blast
      then show ?thesis
        using at_path.below [OF e] Dir
        by (intro exI [of _ "d # ds"] exI [of _ es] exI [of _ f]) simp
    qed
  qed (use Suc.prems in simp_all)
qed

lemma deep_fs_root: "deep_fs (win_path [''D:'', ''games'']) = Some deep_tree"
  by (simp add: deep_fs_def)

lemma deep_root_joins: "joins_with_sep (win_path [''D:'', ''games''])"
  by code_simp

lemma deep_tree_plain: "plain_tree deep_tree"
  by code_simp

lemma deep_fs_scan:
  "scan_directory_deep deep_fs (win_path [''D:'', ''games'']) [] =
     [\<lparr>name = ''b'', path = win_path [''D:'', ''games'', ''a'', ''b'', ''doom.exe'']\<rparr>,
      \<lparr>name = ''c'', path = win_path [''D:'', ''games'', ''a'', ''b'', ''c'', ''doom.exe'']\<rparr>]"
  by code_simp

text \<open>
  Claim C4, as stated, fails: the separator test is made after the files of the visited
  directory were examined, and a directory three levels below the root is still visited
  (the count of its parent exceeds the root's by 2 only). Its executable is returned.
\<close>

theorem deep_scan_depth_bound_counterexample:
  "is_exe ''doom.exe'' \<and>
   is_likely_game ''doom.exe'' (win_path [''D:'', ''games'', ''a'', ''b'', ''c'']) \<and>
   \<lparr>name = ''c'', path = win_path [''D:'', ''games'', ''a'', ''b'', ''c'', ''doom.exe'']\<rparr>
     \<in> set (scan_directory_deep deep_fs (win_path [''D:'', ''games'']) [])"
  by code_simp

text \<open>
  Claim C4, amended. For a root path to which \<open>join\<close> appends a separator (it does not end
  with one; every built-in root is such) and a tree of plain entry names, the deep scan is
  the traversal of the root and of the directories at most three levels below it. The
  candidate of every qualifying file of a directory at most three levels below the root is
  returned, so one two levels below and one three levels below are; and every candidate
  the scan adds is that of a qualifying file of such a directory, so none is returned for a
  directory four levels below. The candidates found before are kept.
\<close>

theorem deep_scan_level_bound:
  assumes "disk directory = Some node" and "joins_with_sep directory" and "plain_tree node"
  shows "scan_directory_deep disk directory found = levels_upto 3 directory node found \<and>
         (\<exists>new. scan_directory_deep disk directory found = found @ new) \<and>
         (\<forall>ds entries f.
            length ds \<le> 3 \<and> at_path node ds (Dir entries) \<and> f \<in> set (files_of entries) \<and>
            qualifies (foldl join directory ds) f \<longrightarrow>
            candidate (foldl join directory ds) f
              \<in> set (scan_directory_deep disk directory found)) \<and>
         (\<forall>g \<in> set (scan_directory_deep disk directory found).
            g \<in> set found \<or>
            (\<exists>ds entries f.
               length ds \<le> 3 \<and> at_path node ds (Dir entries) \<and> f \<in> set (files_of entries) \<and>
               qualifies (foldl join directory ds) f \<and>
               g = candidate (foldl join directory ds) f))"
proof -
  have eq: "scan_directory_deep disk directory found = levels_upto 3 directory node found"
    using walk_levels(1) [of directory node directory found] assms
    by (simp add: scan_directory_deep_def)
  have split: "levels_upto 3 directory node found = found @ levels_upto 3 directory node []"
    by (rule levels_upto_acc(1))
  have inside: "candidate (foldl join directory ds) f
                  \<in> set (scan_directory_deep disk directory found)"
    if "length ds \<le> 3" "at_path node ds (Dir entries)" "f \<in> set (files_of entries)"
      "qualifies (foldl join directory ds) f" for ds entries f
    using at_path_returned [OF that(2) that(1) that(3) that(4)] by (simp add: eq split)
  have only: "g \<in> set found \<or>
      (\<exists>ds entries f.
         length ds \<le> 3 \<and> at_path node ds (Dir entries) \<and> f \<in> set (files_of entries) \<and>
         qualifies (foldl join directory ds) f \<and> g = candidate (foldl join directory ds) f)"
    if "g \<in> set (scan_directory_deep disk directory found)" for g
  proof (cases "g \<in> set found")
    case True
    then show ?thesis by simp
  next
    case False
    with that have "g \<in> set (levels_upto 3 directory node [])"
      by (simp add: eq split)
    then show ?thesis
      using returned_at_path by blast
  qed
  show ?thesis
  proof (intro conjI allI impI ballI)
    show "scan_directory_deep disk directory found = levels_upto 3 directory node found"
      by (rule eq)
    show "\<exists>new. scan_directory_deep disk directory found = found @ new"
      by (rule scan_directory_deep_extends)
  next
    fix ds entries f
    assume "length ds \<le> 3 \<and> at_path node ds (Dir entries) \<and> f \<in> set (files_of entries) \<and>
            qualifies (foldl join directory ds) f"
    then show "candidate (foldl join directory ds) f
                 \<in> set (scan_directory_deep disk directory found)"
      using inside by blast
  next
    fix g
    assume "g \<in> set (scan_directory_deep disk directory found)"
    then show "g \<in> set found \<or>
      (\<exists>ds entries f.
         length ds \<le> 3 \<and> at_path node ds (Dir entries) \<and> f \<in> set (files_of entries) \<and>
         qualifies (foldl join directory ds) f \<and> g = candidate (foldl join directory ds) f)"
      by (rule only)
  qed
qed

theorem deep_scan_level_bound_witness:
  "deep_fs (win_path [''D:'', ''games'']) = Some deep_tree \<and>
   joins_with_sep (win_path [''D:'', ''games'']) \<and>
   plain_tree deep_tree \<and>
   at_path deep_tree [''a'', ''b'', ''c'']
     (Dir [(''doom.exe'', File), (''d'', Dir [(''doom.exe'', File)])]) \<and>
   ''doom.exe'' \<in> set (files_of [(''doom.exe'', File), (''d'', Dir [(''doom.exe'', File)])]) \<and>
   qualifies (foldl join (win_path [''D:'', ''games'']) [''a'', ''b'', ''c'']) ''doom.exe'' \<and>
   candidate (foldl join (win_path [''D:'', ''games'']) [''a'', ''b'', ''c'']) ''doom.exe''
     \<in> set (scan_directory_deep deep_fs (win_path [''D:'', ''games'']) []) \<and>
   levels_upto 3 (win_path [''D:'', ''games'']) deep_tree [] =
     [\<lparr>name = ''b'', path = win_path [''D:'', ''games'', ''a'', ''b'', ''doom.exe'']\<rparr>,
      \<lparr>name = ''c'', path = win_path [''D:'', ''games'', ''a'', ''b'', ''c'', ''doom.exe'']\<rparr>] \<and>
   \<lparr>name = ''d'', path = win_path [''D:'', ''games'', ''a'', ''b'', ''c'', ''d'', ''doom.exe'']\<rparr>
     \<notin> set (scan_directory_deep deep_fs (win_path [''D:'', ''games'']) [])"
proof -
  have absent:
    "\<lparr>name = ''d'', path = win_path [''D:'', ''games'', ''a'', ''b'', ''c'', ''d'', ''doom.exe'']\<rparr>
       \<notin> set [\<lparr>name = ''b'', path = win_path [''D:'', ''games'', ''a'', ''b'', ''doom.exe'']\<rparr>,
               \<lparr>name = ''c'',
                  path = win_path [''D:'', ''games'', ''a'', ''b'', ''c'', ''doom.exe'']\<rparr>]"
    by code_simp
  have at: "at_path deep_tree [''a'', ''b'', ''c'']
              (Dir [(''doom.exe'', File), (''d'', Dir [(''doom.exe'', File)])])"
    unfolding deep_tree_def
    by (rule at_path.below [where child = "Dir [(''b'', _)]"], simp, simp,
        rule at_path.below [where child = "Dir [(''doom.exe'', File), (''c'', _)]"], simp, simp,
        rule at_path.below [where child = "Dir [(''doom.exe'', File), (''d'', _)]"], simp, simp,
        rule at_path.here)
  have listed: "''doom.exe'' \<in> set (files_of [(''doom.exe'', File), (''d'', Dir [(''doom.exe'', File)])])"
    by (simp add: files_of_def)
  have qual: "qualifies (foldl join (win_path [''D:'', ''games'']) [''a'', ''b'', ''c'']) ''doom.exe''"
    by code_simp
  note bound = deep_scan_level_bound [of deep_fs "win_path [''D:'', ''games'']" deep_tree "[]",
      OF deep_fs_root deep_root_joins deep_tree_plain]
  have levels: "levels_upto 3 (win_path [''D:'', ''games'']) deep_tree [] =
                  scan_directory_deep deep_fs (win_path [''D:'', ''games'']) []"
    using bound by simp
  have inside: "candidate (foldl join (win_path [''D:'', ''games'']) [''a'', ''b'', ''c''])
                  ''doom.exe''
                  \<in> set (scan_directory_deep deep_fs (win_path [''D:'', ''games'']) [])"
    using bound at listed qual by (metis length_Cons list.size(3) numeral_3_eq_3 order_refl)
  show ?thesis
    using deep_fs_root deep_root_joins deep_tree_plain at listed qual inside absent
    by (simp only: levels deep_fs_scan simp_thms)
qed

section \<open>Shallow scan: one candidate for each admissible child\<close>

lemma shallow_files_first:
  "shallow_files item_path names found =
     found @ (if list_ex (qualifies item_path) names
              then [\<lparr>name = get_game_name_from_path item_path
                               (hd (filter (qualifies item_path) names)),
                      path = join item_path (hd (filter (qualifies item_path) names))\<rparr>]
              else [])"
  by (induction names) (auto simp: qualifies_def)

lemma shallow_items_children:
  "shallow_items directory items found =
     found @ map (first_candidate directory)
       (filter (\<lambda>child. has_qualifying_entry (join directory (fst child)) (snd child))
          (admissible_children items))"
proof (induction items arbitrary: found)
  case Nil
  show ?case by (simp add: admissible_children_def)
next
  case (Cons child items)
  obtain item node where child: "child = (item, node)"
    by (cases child)
  show ?case
    unfolding child
    by (cases node)
      (simp_all add: Cons.IH shallow_files_first admissible_children_def Let_def
        has_qualifying_entry_def entry_names_def first_candidate_def)
qed


text \<open>
  Without any condition on the children: the number of candidates is the number of
  admissible children that have a top-level entry, of any kind, whose name qualifies.
\<close>

lemma shallow_scan_count:
  assumes "disk directory = Some (Dir items)"
  shows "length (scan_directory_shallow disk directory []) =
           length (filter (\<lambda>child. has_qualifying_entry (join directory (fst child)) (snd child))
                     (admissible_children items))"
  using assms by (simp add: scan_directory_shallow_def shallow_items_children)








section \<open>What each operation does to the favourites and their document\<close>

lemma update_game_lists_frame:
  "favorites_json (update_game_lists st) = favorites_json st"
  "favorites_writes (update_game_lists st) = favorites_writes st"
  "deleted_games (update_game_lists st) = deleted_games st"
  "writable (update_game_lists st) = writable st"
  "favorites (update_game_lists st) =
     filter (\<lambda>f. path f \<notin> path ` set (deleted_games st)) (favorites st)"
  by (simp_all add: update_game_lists_def populate_favorites_list_def populate_deleted_list_def
      Let_def)

lemma filter_games_frame:
  "favorites_json (filter_games st) = favorites_json st"
  "favorites_writes (filter_games st) = favorites_writes st"
  "favorites (filter_games st) = favorites st"
  "deleted_games (filter_games st) = deleted_games st"
  "writable (filter_games st) = writable st"
  by (simp_all add: filter_games_def Let_def)

lemma save_deleted_games_frame:
  "favorites_json (save_deleted_games st) = favorites_json st"
  "favorites_writes (save_deleted_games st) = favorites_writes st"
  "favorites (save_deleted_games st) = favorites st"
  "deleted_games (save_deleted_games st) = deleted_games st"
  "writable (save_deleted_games st) = writable st"
  by (simp_all add: save_deleted_games_def)

lemma save_favorites_frame:
  "favorites (save_favorites st) = favorites st"
  "deleted_games (save_favorites st) = deleted_games st"
  "writable (save_favorites st) = writable st"
  "favorites_json (save_favorites st) =
     (if writable st then Content (favorites st) else favorites_json st)"
  "favorites_writes (save_favorites st) =
     (if writable st then Suc (favorites_writes st) else favorites_writes st)"
  by (simp_all add: save_favorites_def)

lemma scan_games_thread_frame:
  "favorites_json (scan_games_thread st) = favorites_json st"
  "favorites_writes (scan_games_thread st) = favorites_writes st"
  "favorites (scan_games_thread st) = favorites st"
  by (simp_all add: scan_games_thread_def)

lemma scan_for_games_frame:
  "favorites_json (scan_for_games env st) = favorites_json st"
  "favorites_writes (scan_for_games env st) = favorites_writes st"
  by (simp_all add: scan_for_games_def split_beta Let_def)

lemma restore_game_frame:
  "favorites_json (restore_game g st) = favorites_json st"
  "favorites_writes (restore_game g st) = favorites_writes st"
  by (simp_all add: restore_game_def Let_def update_game_lists_frame save_deleted_games_frame
      filter_games_frame)

lemma add_custom_path_frame:
  "favorites_json (add_custom_path env directory st) = favorites_json st"
  "favorites_writes (add_custom_path env directory st) = favorites_writes st"
  by (simp_all add: add_custom_path_def Let_def update_game_lists_frame)

lemma launch_game_frame:
  "favorites_json (launch_game env started p st) = favorites_json st"
  "favorites_writes (launch_game env started p st) = favorites_writes st"
  "favorites (launch_game env started p st) = favorites st"
  by (simp_all add: launch_game_def)

lemma run_callback_frame:
  "favorites_json (run_callback st) = favorites_json st"
  "favorites_writes (run_callback st) = favorites_writes st"
  by (simp_all add: run_callback_def Let_def update_game_lists_frame scan_games_thread_frame
      split: list.splits callback.splits)

lemma init_frame:
  "favorites_json (init fav_doc del_doc w) = fav_doc"
  "deleted_json (init fav_doc del_doc w) = del_doc"
  "writable (init fav_doc del_doc w) = w"
  "favorites_writes (init fav_doc del_doc w) = 0"
  "favorites (init fav_doc del_doc w) = (case fav_doc of Content gs \<Rightarrow> gs | _ \<Rightarrow> [])"
  "deleted_games (init fav_doc del_doc w) = (case del_doc of Content gs \<Rightarrow> gs | _ \<Rightarrow> [])"
  "scanning (init fav_doc del_doc w) = False"
  by (simp_all add: init_def load_favorites_def load_deleted_games_def read_document_def Let_def
      split: sum.splits document.splits)

section \<open>The scan guard\<close>

lemma scan_games_thread_starts:
  "\<not> scanning st \<Longrightarrow>
     scanning (scan_games_thread st) \<and>
     scan_threads (scan_games_thread st) = Suc (scan_threads st)"
  by (simp add: scan_games_thread_def)

text \<open>
  Claim C7. While \<open>scanning\<close> is set, \<open>scan_games_thread\<close> returns the state it was given,
  and so does \<open>refresh_games\<close>: no thread is started, nothing is queued for the interface,
  and the games, the favourites and the deleted games are as before.
\<close>

theorem reentrancy_guard:
  "scanning st \<Longrightarrow>
     scan_games_thread st = st \<and> refresh_games st = st \<and> step RefreshGames st = st"
  by (simp add: scan_games_thread_def refresh_games_def)

theorem reentrancy_guard_witness:
  "scanning (scan_games_thread (init Missing Missing True)) \<and>
   scan_threads (scan_games_thread (init Missing Missing True)) = 1 \<and>
   scan_games_thread (scan_games_thread (init Missing Missing True)) =
     scan_games_thread (init Missing Missing True) \<and>
   refresh_games (scan_games_thread (init Missing Missing True)) =
     scan_games_thread (init Missing Missing True)"
proof -
  have idle: "\<not> scanning (init Missing Missing True)"
    by (simp add: init_frame)
  have none: "scan_threads (init Missing Missing True) = 0"
    by (simp add: init_def load_favorites_def load_deleted_games_def)
  have busy: "scanning (scan_games_thread (init Missing Missing True))"
    using scan_games_thread_starts [OF idle] by simp
  show ?thesis
    using reentrancy_guard [OF busy] busy scan_games_thread_starts [OF idle] none by simp
qed

section \<open>Writes of the favourites document\<close>

text \<open>
  Claim C8, as stated, fails: a confirmed \<open>delete_game\<close> calls \<open>save_favorites\<close> too. On a
  first run, with no favourites document yet, deleting a game creates it.
\<close>

theorem favorites_write_frame_counterexample:
  "favorites_json (step (DeleteGame doom_root True) (init Missing Missing True)) \<noteq>
   favorites_json (init Missing Missing True)"
  by (simp add: delete_game_def Let_def update_game_lists_frame save_favorites_frame
      save_deleted_games_frame init_frame)

text \<open>
  Claim C8, amended. The favourites document is written only by a favourite toggle and by
  a confirmed deletion: every other action leaves the document and the count of its writes
  as they were. In particular the refresh of the favourites view, which filters the
  favourites in memory against the deleted set, writes nothing. On a writable disk a toggle
  and a confirmed deletion each write the document once.
\<close>

theorem favorites_write_frame:
  "((\<forall>g. a \<noteq> ToggleFavorite g) \<and> (\<forall>g. a \<noteq> DeleteGame g True) \<longrightarrow>
      favorites_json (step a st) = favorites_json st \<and>
      favorites_writes (step a st) = favorites_writes st) \<and>
   favorites_json (populate_favorites_list st) = favorites_json st \<and>
   favorites_writes (populate_favorites_list st) = favorites_writes st \<and>
   favorites_json (update_game_lists st) = favorites_json st \<and>
   favorites_writes (update_game_lists st) = favorites_writes st \<and>
   (writable st \<longrightarrow>
      favorites_writes (toggle_favorite g st) = Suc (favorites_writes st) \<and>
      favorites_writes (delete_game g True st) = Suc (favorites_writes st))"
proof -
  have "favorites_json (step a st) = favorites_json st \<and>
        favorites_writes (step a st) = favorites_writes st"
    if "\<forall>g. a \<noteq> ToggleFavorite g" and "\<forall>g. a \<noteq> DeleteGame g True"
    using that
    by (cases a)
      (simp_all add: refresh_games_def scan_games_thread_frame add_custom_path_frame
        restore_game_frame delete_game_def filter_games_frame launch_game_frame
        run_callback_frame scan_for_games_frame init_frame)
  moreover have "favorites_json (populate_favorites_list st) = favorites_json st \<and>
      favorites_writes (populate_favorites_list st) = favorites_writes st"
    by (simp add: populate_favorites_list_def Let_def)
  moreover have "writable st \<longrightarrow>
      favorites_writes (toggle_favorite g st) = Suc (favorites_writes st) \<and>
      favorites_writes (delete_game g True st) = Suc (favorites_writes st)"
    by (simp add: toggle_favorite_def delete_game_def Let_def update_game_lists_frame
        save_favorites_frame save_deleted_games_frame)
  ultimately show ?thesis
    by (simp add: update_game_lists_frame)
qed

theorem favorites_write_frame_witness:
  "(\<forall>g. RestoreGame portal \<noteq> ToggleFavorite g) \<and>
   (\<forall>g. RestoreGame portal \<noteq> DeleteGame g True) \<and>
   favorites_json (step (RestoreGame portal) (init (Content [portal]) (Content [portal]) True)) =
     Content [portal] \<and>
   favorites (init (Content [portal]) (Content [portal]) True) = [portal] \<and>
   favorites (populate_favorites_list (init (Content [portal]) (Content [portal]) True)) = [] \<and>
   favorites_json (populate_favorites_list (init (Content [portal]) (Content [portal]) True)) =
     Content [portal] \<and>
   writable (init (Content [portal]) (Content [portal]) True) \<and>
   favorites_writes (toggle_favorite doom_root (init (Content [portal]) (Content [portal]) True))
     = 1"
proof -
  let ?st = "init (Content [portal]) (Content [portal]) True"
  have other: "(\<forall>g. RestoreGame portal \<noteq> ToggleFavorite g) \<and>
               (\<forall>g. RestoreGame portal \<noteq> DeleteGame g True)"
    by simp
  have filtered: "favorites (populate_favorites_list ?st) = []"
    by (simp add: populate_favorites_list_def Let_def init_frame)
  show ?thesis
    using favorites_write_frame [of "RestoreGame portal" ?st doom_root] other filtered
    by (simp add: init_frame)
qed

section \<open>Loading the override documents\<close>

text \<open>
  Claim C9. A launcher started on a missing favourites or deleted document has that
  collection empty (the load leaves the empty list of \<open>__init__\<close> as it is); started on a
  document that cannot be read or deserialised it has the collection empty and a line
  printed. The loads always return a state: the failure of the read is a value handled
  inside them.
\<close>

theorem load_robustness:
  "favorites (init Missing del_doc w) = [] \<and>
   deleted_games (init fav_doc Missing w) = [] \<and>
   favorites (init Corrupt del_doc w) = [] \<and>
   deleted_games (init fav_doc Corrupt w) = [] \<and>
   ErrorLoadingFavorites \<in> set (stdout (init Corrupt del_doc w)) \<and>
   ErrorLoadingDeleted \<in> set (stdout (init fav_doc Corrupt w)) \<and>
   (favorites_json st = Missing \<longrightarrow> load_favorites st = st) \<and>
   (deleted_json st = Missing \<longrightarrow> load_deleted_games st = st) \<and>
   (favorites_json st = Corrupt \<longrightarrow>
      load_favorites st = st\<lparr>stdout := stdout st @ [ErrorLoadingFavorites], favorites := []\<rparr>) \<and>
   (deleted_json st = Corrupt \<longrightarrow>
      load_deleted_games st =
        st\<lparr>stdout := stdout st @ [ErrorLoadingDeleted], deleted_games := []\<rparr>)"
  by (auto simp: init_def load_favorites_def load_deleted_games_def read_document_def Let_def
      split: document.splits)

theorem load_robustness_witness:
  "favorites_json (init Corrupt Missing True) = Corrupt \<and>
   deleted_json (init Corrupt Missing True) = Missing \<and>
   favorites (init Corrupt Missing True) = [] \<and>
   deleted_games (init Corrupt Missing True) = [] \<and>
   stdout (init Corrupt Missing True) = [ErrorLoadingFavorites] \<and>
   load_deleted_games (init Corrupt Missing True) = init Corrupt Missing True \<and>
   favorites (load_favorites (init Corrupt Missing True)) = [] \<and>
   favorites_json (init Missing Corrupt True) = Missing \<and>
   deleted_json (init Missing Corrupt True) = Corrupt \<and>
   favorites (init Missing Corrupt True) = [] \<and>
   deleted_games (init Missing Corrupt True) = [] \<and>
   stdout (init Missing Corrupt True) = [ErrorLoadingDeleted] \<and>
   load_favorites (init Missing Corrupt True) = init Missing Corrupt True \<and>
   deleted_games (load_deleted_games (init Missing Corrupt True)) = []"
proof -
  have out1: "stdout (init Corrupt Missing True) = [ErrorLoadingFavorites]"
    by (simp add: init_def load_favorites_def load_deleted_games_def read_document_def)
  have out2: "stdout (init Missing Corrupt True) = [ErrorLoadingDeleted]"
    by (simp add: init_def load_favorites_def load_deleted_games_def read_document_def)
  show ?thesis
    using load_robustness [of Missing True Corrupt "init Corrupt Missing True"]
      load_robustness [of Corrupt True Missing "init Missing Corrupt True"] out1 out2
    by (simp add: init_frame)
qed

section \<open>Favourites are identified by name\<close>










end
